theory Spec2Isabelle
  imports Complex_Main
begin

section \<open>JobsHub API: the authentication core\<close>

text \<open>
  A shallow embedding of \<^verbatim>\<open>src/models/userModel.js\<close> and
  \<^verbatim>\<open>src/controllers/authController.js\<close>.

  A handler is a function from the request's fields and the user collection to the new
  collection and either the error handed to \<^verbatim>\<open>next\<close> (\<open>Inl\<close>) or its result (\<open>Inr\<close>).
  Times are milliseconds since the epoch, as \<^verbatim>\<open>Date.now()\<close> gives them; the issued-at
  claim of a session token is in seconds, as \<^verbatim>\<open>jsonwebtoken\<close> writes it.
  A JavaScript string is a \<open>string\<close>, one list element for each unit that
  \<^verbatim>\<open>.length\<close> counts; a field that may be \<^verbatim>\<open>undefined\<close> is an \<open>option\<close>.
\<close>

subsection \<open>Data model\<close>

datatype role = RoleUser | RoleAdmin

text \<open>The paths of \<^verbatim>\<open>userSchema\<close>, with the document's \<^verbatim>\<open>_id\<close> as \<open>user_id\<close>.\<close>

record user =
  user_id :: nat
  name :: "string option"
  email :: "string option"
  password :: "string option"
  passwordConfirm :: "string option"
  role :: role
  passwordChangedAt :: "int option"
  passwordResetToken :: "string option"
  passwordResetExpires :: "int option"

text \<open>
  What a handler passes to \<^verbatim>\<open>next\<close>, or what a rejected promise carries there:
  \<open>AppError message statusCode\<close> is \<^verbatim>\<open>new AppError(message, statusCode)\<close>;
  \<open>ValidationError paths\<close> is the error of a failed schema validation, with the
  paths that failed; \<open>DuplicateKeyError\<close> is the unique index on \<^verbatim>\<open>email\<close> refusing an
  insert; \<open>JsonWebTokenError\<close> is \<^verbatim>\<open>jwt.verify\<close> throwing; \<open>BcryptError\<close> is
  \<^verbatim>\<open>bcryptjs\<close> rejecting its arguments; \<open>TypeError\<close> is a method called on \<^verbatim>\<open>null\<close>.
\<close>

datatype error =
    AppError string nat
  | ValidationError "string list"
  | DuplicateKeyError
  | JsonWebTokenError
  | BcryptError
  | TypeError

text \<open>The body of \<^verbatim>\<open>res.status(statusCode).json({status, token, user, message})\<close>.\<close>

datatype response =
  Response (statusCode: nat) (status: string) (token: "string option")
    (sent_user: "user option") (message: "string option")

text \<open>
  The libraries and utilities the two files call and do not define:
  \<^verbatim>\<open>crypto.createHash('sha256').update(s).digest('hex')\<close>, \<^verbatim>\<open>bcrypt.hash(s, salt)\<close>,
  \<^verbatim>\<open>bcrypt.compare(s, hash)\<close>, \<^verbatim>\<open>jwt.verify(token, secret)\<close> (the decoded
  \<^verbatim>\<open>id\<close> and \<^verbatim>\<open>iat\<close>, or \<open>None\<close> when it throws), \<^verbatim>\<open>createToken(res, id)\<close>,
  \<^verbatim>\<open>validator.isEmail\<close> and the \<^verbatim>\<open>lowercase\<close> setter of the schema.
  Random and timed inputs (the salt, the random bytes of a reset token, the clock, the outcome
  of sending a mail) are arguments of the handler that draws them.
\<close>

record env =
  sha256 :: "string \<Rightarrow> string"
  bcrypt_hash :: "string \<Rightarrow> string \<Rightarrow> string"
  bcrypt_compare :: "string \<Rightarrow> string \<Rightarrow> bool"
  jwt_verify :: "string \<Rightarrow> (nat \<times> int) option"
  createToken :: "nat \<Rightarrow> string"
  isEmail :: "string \<Rightarrow> bool"
  toLowerCase :: "string \<Rightarrow> string"

subsection \<open>JavaScript values\<close>

text \<open>\<^verbatim>\<open>!v\<close> is false for a string exactly when it is defined and not empty.\<close>

definition truthy :: "string option \<Rightarrow> bool" where
  "truthy v = (case v of None \<Rightarrow> False | Some s \<Rightarrow> s \<noteq> [])"

text \<open>\<^verbatim>\<open>s.startsWith(p)\<close>.\<close>

fun startsWith :: "string \<Rightarrow> string \<Rightarrow> bool" where
  "startsWith s [] = True"
| "startsWith [] (p # ps) = False"
| "startsWith (c # cs) (p # ps) = (c = p \<and> startsWith cs ps)"

text \<open>\<^verbatim>\<open>s.split(' ')\<close>: the pieces between single spaces; an empty string gives one empty piece.\<close>

fun split_space :: "string \<Rightarrow> string list" where
  "split_space [] = [] # []"
| "split_space (c # cs) =
     (if c = CHR '' '' then [] # split_space cs
      else (case split_space cs of
              [] \<Rightarrow> (c # []) # []
            | p # ps \<Rightarrow> (c # p) # ps))"

text \<open>\<^verbatim>\<open>xs[i]\<close>: \<^verbatim>\<open>undefined\<close> out of range.\<close>

definition at_index :: "'a list \<Rightarrow> nat \<Rightarrow> 'a option" where
  "at_index xs i = (if i < length xs then Some (xs ! i) else None)"

subsection \<open>The user model (userModel.js)\<close>

text \<open>\<^verbatim>\<open>passwordMatching(enteredPassword, userPassword)\<close>: \<^verbatim>\<open>bcrypt.compare\<close> of two strings.\<close>

definition passwordMatching :: "env \<Rightarrow> string option \<Rightarrow> string option \<Rightarrow> error + bool" where
  "passwordMatching e enteredPassword userPassword =
     (case enteredPassword of
        None \<Rightarrow> Inl BcryptError
      | Some p \<Rightarrow>
          (case userPassword of
             None \<Rightarrow> Inl BcryptError
           | Some h \<Rightarrow> Inr (bcrypt_compare e p h)))"

text \<open>
  \<^verbatim>\<open>changedPasswordAfter(tokenIssuedAt)\<close> (the file declares it twice, with one
  body): the stored time in seconds, a fraction, against the token's whole seconds. The
  division is the exact one: a double holds every millisecond count below \<open>2 ^ 53\<close> and
  its thousandth to far less than a millisecond.
\<close>

definition changedPasswordAfter :: "user \<Rightarrow> int \<Rightarrow> bool" where
  "changedPasswordAfter u tokenIssuedAt =
     (case passwordChangedAt u of
        Some changedAt \<Rightarrow>
          (let changedTimestamp = real_of_int changedAt / 1000
           in real_of_int tokenIssuedAt < changedTimestamp)
      | None \<Rightarrow> False)"

text \<open>
  \<^verbatim>\<open>createPasswordResetToken()\<close>, with \<open>resetToken\<close> the hex string of the 32 random bytes
  and \<open>now\<close> the clock: the document with its two reset fields set, and the raw token.
\<close>

definition createPasswordResetToken :: "env \<Rightarrow> string \<Rightarrow> int \<Rightarrow> user \<Rightarrow> user \<times> string" where
  "createPasswordResetToken e resetToken now u =
     (u\<lparr>passwordResetToken := Some (sha256 e resetToken),
        passwordResetExpires := Some (now + 10 * 60 * 1000)\<rparr>,
      resetToken)"

text \<open>
  The validators of the schema, one path at a time. \<^verbatim>\<open>required\<close> refuses an absent
  and an empty string; \<^verbatim>\<open>minlength\<close> and a custom validator see only a present value.
\<close>

definition required_ok :: "string option \<Rightarrow> bool" where
  "required_ok v = (case v of None \<Rightarrow> False | Some s \<Rightarrow> s \<noteq> [])"

definition minlength_ok :: "nat \<Rightarrow> string option \<Rightarrow> bool" where
  "minlength_ok n v = (case v of None \<Rightarrow> True | Some s \<Rightarrow> n \<le> length s)"

definition name_ok :: "user \<Rightarrow> bool" where
  "name_ok u = required_ok (name u)"

definition email_ok :: "env \<Rightarrow> user \<Rightarrow> bool" where
  "email_ok e u =
     (required_ok (email u) \<and> (case email u of None \<Rightarrow> True | Some a \<Rightarrow> isEmail e a))"

definition password_ok :: "user \<Rightarrow> bool" where
  "password_ok u = (required_ok (password u) \<and> minlength_ok 6 (password u))"

definition passwordConfirm_ok :: "user \<Rightarrow> bool" where
  "passwordConfirm_ok u =
     (required_ok (passwordConfirm u) \<and> passwordConfirm u = password u)"

definition validation_errors :: "env \<Rightarrow> user \<Rightarrow> string list" where
  "validation_errors e u =
     (if name_ok u then [] else [''name'']) @
     (if email_ok e u then [] else [''email'']) @
     (if password_ok u then [] else [''password'']) @
     (if passwordConfirm_ok u then [] else [''passwordConfirm''])"

text \<open>
  \<^verbatim>\<open>userSchema.pre('save')\<close>. \<open>modified\<close> is \<^verbatim>\<open>this.isModified('password')\<close>, \<open>isNew\<close>
  is \<^verbatim>\<open>this.isNew\<close>, \<open>salt\<close> the salt drawn by \<^verbatim>\<open>bcrypt.genSalt(12)\<close>.
\<close>

definition pre_save :: "env \<Rightarrow> string \<Rightarrow> int \<Rightarrow> bool \<Rightarrow> bool \<Rightarrow> user \<Rightarrow> error + user" where
  "pre_save e salt now modified isNew u =
     (if \<not> modified then Inr u
      else (case password u of
              None \<Rightarrow> Inl BcryptError
            | Some plain \<Rightarrow>
                (let u1 = u\<lparr>password := Some (bcrypt_hash e plain salt)\<rparr>;
                     u2 = u1\<lparr>passwordConfirm := None\<rparr>;
                     u3 = (if \<not> isNew then u2\<lparr>passwordChangedAt := Some (now - 1000)\<rparr> else u2)
                 in Inr u3)))"

subsection \<open>The user collection\<close>

text \<open>
  The collection is the list of its documents in insertion order. The \<^verbatim>\<open>password\<close>
  path has \<^verbatim>\<open>select: false\<close>: a query returns the document without it unless it asks
  with \<^verbatim>\<open>.select('+password')\<close>.
\<close>

type_synonym store = "user list"

definition unselect_password :: "user \<Rightarrow> user" where
  "unselect_password u = u\<lparr>password := None\<rparr>"

definition findById :: "store \<Rightarrow> nat \<Rightarrow> user option" where
  "findById s i = map_option unselect_password (find (\<lambda>u. user_id u = i) s)"

definition findById_with_password :: "store \<Rightarrow> nat \<Rightarrow> user option" where
  "findById_with_password s i = find (\<lambda>u. user_id u = i) s"

text \<open>
  \<^verbatim>\<open>User.findOne({ email })\<close>. The filter goes through the setter of the path; an
  \<^verbatim>\<open>undefined\<close> value matches no document, every stored document having an email.
\<close>

definition email_matches :: "env \<Rightarrow> string option \<Rightarrow> user \<Rightarrow> bool" where
  "email_matches e q u =
     (case q of None \<Rightarrow> False | Some a \<Rightarrow> email u = Some (toLowerCase e a))"

definition findOne_email :: "env \<Rightarrow> store \<Rightarrow> string option \<Rightarrow> user option" where
  "findOne_email e s q = map_option unselect_password (find (email_matches e q) s)"

definition findOne_email_with_password :: "env \<Rightarrow> store \<Rightarrow> string option \<Rightarrow> user option" where
  "findOne_email_with_password e s q = find (email_matches e q) s"

text \<open>
  The filter \<^verbatim>\<open>{ passwordResetToken: hashedToken, passwordResetExpires: { $gt: now } }\<close>
  on one document: both fields are present, the hash is equal and the expiry is later.
\<close>

definition reset_matches :: "string \<Rightarrow> int \<Rightarrow> user \<Rightarrow> bool" where
  "reset_matches hashedToken now u =
     (passwordResetToken u = Some hashedToken \<and>
      (case passwordResetExpires u of None \<Rightarrow> False | Some expires \<Rightarrow> now < expires))"

definition findOne_reset :: "store \<Rightarrow> string \<Rightarrow> int \<Rightarrow> user option" where
  "findOne_reset s hashedToken now =
     map_option unselect_password (find (reset_matches hashedToken now) s)"

text \<open>
  Writing a loaded document back: the stored document of the same \<^verbatim>\<open>_id\<close> takes the
  document's paths; the password is written only when it was modified (it may not even
  have been loaded).
\<close>

definition write_back :: "bool \<Rightarrow> user \<Rightarrow> store \<Rightarrow> store" where
  "write_back modified d s =
     map (\<lambda>u. if user_id u = user_id d
              then (if modified then d else d\<lparr>password := password u\<rparr>)
              else u) s"

text \<open>
  \<^verbatim>\<open>doc.save(options)\<close> on a loaded document: the validation unless
  \<^verbatim>\<open>validateBeforeSave: false\<close>, then the \<^verbatim>\<open>pre('save')\<close> hook, then the write.
  The result is the new collection and the document as the handler holds it afterwards.
\<close>

definition save :: "env \<Rightarrow> bool \<Rightarrow> string \<Rightarrow> int \<Rightarrow> bool \<Rightarrow> user \<Rightarrow> store \<Rightarrow> error + (store \<times> user)" where
  "save e validateBeforeSave salt now modified d s =
     (if validateBeforeSave \<and> validation_errors e d \<noteq> []
      then Inl (ValidationError (validation_errors e d))
      else (case pre_save e salt now modified False d of
              Inl err \<Rightarrow> Inl err
            | Inr d' \<Rightarrow> Inr (write_back modified d' s, d')))"

text \<open>
  \<^verbatim>\<open>User.create({name, email, password, passwordConfirm})\<close>: a new document with the
  \<^verbatim>\<open>_id\<close> drawn for it and the default role, validated, hashed by the hook, and
  inserted unless the unique index on \<^verbatim>\<open>email\<close> refuses it.
\<close>

definition create :: "env \<Rightarrow> nat \<Rightarrow> string \<Rightarrow> int \<Rightarrow> string option \<Rightarrow> string option \<Rightarrow>
    string option \<Rightarrow> string option \<Rightarrow> store \<Rightarrow> error + (store \<times> user)" where
  "create e new_id salt now nm em pw pwc s =
     (let d = \<lparr>user_id = new_id, name = nm, email = map_option (toLowerCase e) em,
               password = pw, passwordConfirm = pwc, role = RoleUser,
               passwordChangedAt = None, passwordResetToken = None,
               passwordResetExpires = None\<rparr>
      in if validation_errors e d \<noteq> [] then Inl (ValidationError (validation_errors e d))
         else (case pre_save e salt now (password d \<noteq> None) True d of
                 Inl err \<Rightarrow> Inl err
               | Inr d' \<Rightarrow>
                   if email d' \<in> set (map email s) then Inl DuplicateKeyError
                   else Inr (s @ [d'], d')))"

subsection \<open>The controllers (authController.js)\<close>

text \<open>\<^verbatim>\<open>sendTokenResponse(res, user, statusCode)\<close>.\<close>

definition sendTokenResponse :: "env \<Rightarrow> user \<Rightarrow> nat \<Rightarrow> response" where
  "sendTokenResponse e u code =
     (let tok = createToken e (user_id u)
      in Response code ''success'' (Some tok) (Some u) None)"

text \<open>
  \<^verbatim>\<open>signUp\<close>. \<open>mailOk\<close> tells whether \<^verbatim>\<open>sendWelcomeEmail()\<close> resolves: the
  \<^verbatim>\<open>then\<close> and the \<^verbatim>\<open>catch\<close> branch are both written out.
\<close>

definition signUp :: "env \<Rightarrow> store \<Rightarrow> string option \<Rightarrow> string option \<Rightarrow> string option \<Rightarrow>
    string option \<Rightarrow> nat \<Rightarrow> string \<Rightarrow> int \<Rightarrow> bool \<Rightarrow> store \<times> (error + response)" where
  "signUp e s nm em pw pwc new_id salt now mailOk =
     (case create e new_id salt now nm em pw pwc s of
        Inl err \<Rightarrow> (s, Inl err)
      | Inr (s', newUser) \<Rightarrow>
          (let newUser' = newUser\<lparr>password := None\<rparr>
           in if mailOk then (s', Inr (sendTokenResponse e newUser' 201))
              else (s', Inr (sendTokenResponse e newUser' 201))))"

text \<open>\<^verbatim>\<open>login\<close>; it writes nothing.\<close>

definition login :: "env \<Rightarrow> store \<Rightarrow> string option \<Rightarrow> string option \<Rightarrow> error + response" where
  "login e s em pw =
     (if \<not> truthy em \<or> \<not> truthy pw
      then Inl (AppError ''Please provide valid email and password.'' 400)
      else (case findOne_email_with_password e s em of
              None \<Rightarrow> Inl (AppError ''Invalid email or password'' 401)
            | Some u \<Rightarrow>
                (case passwordMatching e pw (password u) of
                   Inl err \<Rightarrow> Inl err
                 | Inr isPasswordCorrect \<Rightarrow>
                     if \<not> isPasswordCorrect
                     then Inl (AppError ''Invalid email or password'' 401)
                     else Inr (sendTokenResponse e (u\<lparr>password := None\<rparr>) 200))))"

text \<open>
  \<^verbatim>\<open>protect\<close>, from the \<^verbatim>\<open>authorization\<close> header: \<open>Inr u\<close> is \<^verbatim>\<open>req.user = u; next()\<close>.
\<close>

definition bearer_token :: "string option \<Rightarrow> string option" where
  "bearer_token authorization =
     (case authorization of
        None \<Rightarrow> None
      | Some h \<Rightarrow>
          if h \<noteq> [] \<and> startsWith h ''Bearer'' then at_index (split_space h) 1 else None)"

definition protect :: "env \<Rightarrow> store \<Rightarrow> string option \<Rightarrow> error + user" where
  "protect e s authorization =
     (let tok = bearer_token authorization
      in if \<not> truthy tok
         then Inl (AppError ''You are not logged in! Please log in to get access.'' 401)
         else (case Option.bind tok (jwt_verify e) of
                 None \<Rightarrow> Inl JsonWebTokenError
               | Some (decoded_id, decoded_iat) \<Rightarrow>
                   (case findById s decoded_id of
                      None \<Rightarrow>
                        Inl (AppError ''The user belonging to this token no longer exists.'' 401)
                    | Some currentUser \<Rightarrow>
                        (let tokenIssuedAt = decoded_iat
                         in if changedPasswordAfter currentUser tokenIssuedAt
                            then Inl (AppError
                              ''User recently changed the password! Please log in again.'' 401)
                            else Inr currentUser))))"

text \<open>
  \<^verbatim>\<open>forgetPassword\<close>. \<open>resetToken\<close> is the random token drawn by
  \<^verbatim>\<open>createPasswordResetToken\<close>, \<open>mailOk\<close> tells whether
  \<^verbatim>\<open>sendPasswordResetEmail\<close> resolves. Both saves skip the validation; the password
  is not modified in either, so the hook leaves the document as it is.
\<close>

definition forgetPassword :: "env \<Rightarrow> store \<Rightarrow> string option \<Rightarrow> string \<Rightarrow> int \<Rightarrow> bool \<Rightarrow>
    store \<times> (error + response)" where
  "forgetPassword e s em resetToken now mailOk =
     (case findOne_email e s em of
        None \<Rightarrow> (s, Inl (AppError ''There is no user with this email address.'' 404))
      | Some u \<Rightarrow>
          (case save e False [] now False (fst (createPasswordResetToken e resetToken now u)) s of
             Inl err \<Rightarrow> (s, Inl err)
           | Inr (s1, u1) \<Rightarrow>
               if mailOk
               then (s1, Inr (Response 200 ''success'' None None (Some ''Token sent to email.'')))
               else (case save e False [] now False
                            (u1\<lparr>passwordResetToken := None, passwordResetExpires := None\<rparr>) s1 of
                       Inl err \<Rightarrow> (s1, Inl err)
                     | Inr (s2, u2) \<Rightarrow>
                         (s2, Inl (AppError
                           ''There was an error sending the email. Please try again later.'' 503)))))"

text \<open>
  \<^verbatim>\<open>resetPassword\<close>, with \<open>tok\<close> the \<^verbatim>\<open>:token\<close> of the route. The document was loaded
  without its password, so assigning one modifies the path. The clock is read twice:
  \<open>now\<close> is the \<^verbatim>\<open>Date.now()\<close> of the filter, \<open>saveNow\<close> the \<^verbatim>\<open>Date.now()\<close> of the
  \<^verbatim>\<open>pre('save')\<close> hook, which runs later, after the salt and the hash were computed.
\<close>

definition resetPassword :: "env \<Rightarrow> store \<Rightarrow> string \<Rightarrow> string option \<Rightarrow> string option \<Rightarrow>
    int \<Rightarrow> int \<Rightarrow> string \<Rightarrow> store \<times> (error + response)" where
  "resetPassword e s tok pw pwc now saveNow salt =
     (let hashedToken = sha256 e tok
      in case findOne_reset s hashedToken now of
           None \<Rightarrow>
             (s, Inl (AppError
               ''Token is invalid or has expired. Please request a new password reset.'' 400))
         | Some u \<Rightarrow>
             (let u1 = u\<lparr>password := pw, passwordConfirm := pwc,
                         passwordResetToken := None, passwordResetExpires := None\<rparr>
              in case save e True salt saveNow (pw \<noteq> password u) u1 s of
                   Inl err \<Rightarrow> (s, Inl err)
                 | Inr (s', u2) \<Rightarrow>
                     (s', Inr (sendTokenResponse e (u2\<lparr>password := None\<rparr>) 200))))"

text \<open>
  \<^verbatim>\<open>updatePassword\<close>, behind \<^verbatim>\<open>protect\<close>: \<open>req_user\<close> is the \<^verbatim>\<open>req.user\<close> it attached.
\<close>

definition updatePassword :: "env \<Rightarrow> store \<Rightarrow> user \<Rightarrow> string option \<Rightarrow> string option \<Rightarrow>
    string option \<Rightarrow> int \<Rightarrow> string \<Rightarrow> store \<times> (error + response)" where
  "updatePassword e s req_user currentPassword pw pwc now salt =
     (case findById_with_password s (user_id req_user) of
        None \<Rightarrow> (s, Inl TypeError)
      | Some u \<Rightarrow>
          (case passwordMatching e currentPassword (password u) of
             Inl err \<Rightarrow> (s, Inl err)
           | Inr isPasswordCorrect \<Rightarrow>
               if \<not> isPasswordCorrect
               then (s, Inl (AppError ''Your current password is incorrect'' 401))
               else (let u1 = u\<lparr>password := pw, passwordConfirm := pwc\<rparr>
                     in case save e True salt now (pw \<noteq> password u) u1 s of
                          Inl err \<Rightarrow> (s, Inl err)
                        | Inr (s', u2) \<Rightarrow>
                            (s', Inr (sendTokenResponse e (u2\<lparr>password := None\<rparr>) 200)))))"

subsection \<open>The errors by their names in the specification\<close>

abbreviation InvalidCredentials :: error where
  "InvalidCredentials \<equiv> AppError ''Invalid email or password'' 401"

abbreviation Unauthenticated :: error where
  "Unauthenticated \<equiv> AppError ''You are not logged in! Please log in to get access.'' 401"

abbreviation UserGone :: error where
  "UserGone \<equiv> AppError ''The user belonging to this token no longer exists.'' 401"

abbreviation StalePassword :: error where
  "StalePassword \<equiv> AppError ''User recently changed the password! Please log in again.'' 401"

abbreviation InvalidOrExpiredToken :: error where
  "InvalidOrExpiredToken \<equiv>
     AppError ''Token is invalid or has expired. Please request a new password reset.'' 400"

abbreviation DeliveryError :: error where
  "DeliveryError \<equiv>
     AppError ''There was an error sending the email. Please try again later.'' 503"

subsection \<open>A small instance\<close>

text \<open>
  An environment and a document on which the handlers can be run: the hash of a token is
  the token behind a mark, the hash of a password is the password behind a mark, one
  bearer string verifies, as user 1 at second 9.
\<close>

definition env0 :: env where
  "env0 = \<lparr>sha256 = (\<lambda>s. ''#'' @ s),
           bcrypt_hash = (\<lambda>p salt. ''$'' @ p),
           bcrypt_compare = (\<lambda>p h. h = ''$'' @ p),
           jwt_verify = (\<lambda>t. if t = ''abc'' then Some (1, 9) else None),
           createToken = (\<lambda>i. ''jwt''),
           isEmail = (\<lambda>a. CHR ''@'' \<in> set a),
           toLowerCase = (\<lambda>a. a)\<rparr>"

definition alice :: user where
  "alice = \<lparr>user_id = 1, name = Some ''Alice'', email = Some ''a@b.c'',
            password = Some ''$secret'', passwordConfirm = None, role = RoleUser,
            passwordChangedAt = None, passwordResetToken = None,
            passwordResetExpires = None\<rparr>"

section \<open>Properties\<close>

subsection \<open>Evaluation and auxiliary facts\<close>

lemmas instance_defs =
  env0_def alice_def truthy_def bearer_token_def at_index_def passwordMatching_def
  changedPasswordAfter_def createPasswordResetToken_def required_ok_def minlength_ok_def
  name_ok_def email_ok_def password_ok_def passwordConfirm_ok_def validation_errors_def
  pre_save_def unselect_password_def findById_def findById_with_password_def
  email_matches_def findOne_email_def findOne_email_with_password_def reset_matches_def
  findOne_reset_def write_back_def save_def create_def sendTokenResponse_def signUp_def
  login_def protect_def forgetPassword_def resetPassword_def updatePassword_def Let_def

lemma protect_unfold:
  "protect e s h =
     (if \<not> truthy (bearer_token h) then Inl Unauthenticated
      else (case Option.bind (bearer_token h) (jwt_verify e) of
              None \<Rightarrow> Inl JsonWebTokenError
            | Some (i, iat) \<Rightarrow>
                (case findById s i of
                   None \<Rightarrow> Inl UserGone
                 | Some u \<Rightarrow> if changedPasswordAfter u iat then Inl StalePassword else Inr u)))"
  by (simp add: protect_def Let_def split: option.splits prod.splits)

text \<open>The comparison of \<^verbatim>\<open>changedPasswordAfter\<close>, in milliseconds.\<close>

lemma changedPasswordAfter_iff:
  "changedPasswordAfter u iat =
     (case passwordChangedAt u of None \<Rightarrow> False | Some c \<Rightarrow> iat * 1000 < c)"
proof (cases "passwordChangedAt u")
  case None
  then show ?thesis by (simp add: changedPasswordAfter_def)
next
  case (Some c)
  have "(real_of_int iat < real_of_int c / 1000) = (real_of_int (iat * 1000) < real_of_int c)"
    by (simp add: field_simps)
  also have "\<dots> = (iat * 1000 < c)"
    by (simp only: of_int_less_iff)
  finally show ?thesis using Some by (simp add: changedPasswordAfter_def)
qed

lemma find_write_back:
  "find (\<lambda>u. user_id u = i) (write_back m d s) =
     (if i = user_id d
      then map_option (\<lambda>u. if m then d else d\<lparr>password := password u\<rparr>)
             (find (\<lambda>u. user_id u = user_id d) s)
      else find (\<lambda>u. user_id u = i) s)"
  by (induction s) (auto simp: write_back_def)

lemma find_user_id_mem: "x \<in> set s \<Longrightarrow> find (\<lambda>u. user_id u = user_id x) s \<noteq> None"
  by (auto simp: find_None_iff)

lemma find_Some_mem: "find P s = Some x \<Longrightarrow> x \<in> set s \<and> P x"
  by (auto simp: find_Some_iff)

lemma validation_errors_Nil:
  "validation_errors e d = [] \<longleftrightarrow>
     name_ok d \<and> email_ok e d \<and> password_ok d \<and> passwordConfirm_ok d"
  by (simp add: validation_errors_def)

lemma password_ok_iff:
  "password_ok d \<longleftrightarrow> (\<exists>p. password d = Some p \<and> 6 \<le> length p)"
  by (auto simp: password_ok_def required_ok_def minlength_ok_def split: option.splits)

lemma pre_save_modified:
  "pre_save e salt t True False d = Inr d' \<Longrightarrow>
     \<exists>p. password d = Some p \<and>
         d' = d\<lparr>password := Some (bcrypt_hash e p salt), passwordConfirm := None,
                passwordChangedAt := Some (t - 1000)\<rparr>"
  by (auto simp: pre_save_def Let_def split: option.splits)

lemma save_modified:
  "save e v salt t True d s = Inr (s', d') \<Longrightarrow>
     s' = write_back True d' s \<and>
     (\<exists>p. password d = Some p \<and>
         d' = d\<lparr>password := Some (bcrypt_hash e p salt), passwordConfirm := None,
                passwordChangedAt := Some (t - 1000)\<rparr>)"
  by (auto simp: save_def split: if_splits sum.splits dest: pre_save_modified)

lemma save_validated:
  "save e True salt t m d s = Inr (s', d') \<Longrightarrow>
     \<exists>p. password d = Some p \<and> 6 \<le> length p \<and> passwordConfirm d = Some p"
  by (auto simp: save_def validation_errors_Nil password_ok_iff passwordConfirm_ok_def
      split: if_splits)

lemma save_unmodified:
  "save e False salt t False d s = Inr (write_back False d s, d)"
  by (simp add: save_def pre_save_def)

lemma protect_resolved:
  "find (\<lambda>x. user_id x = i) s = Some d \<Longrightarrow> passwordChangedAt d = Some c \<Longrightarrow>
   truthy (bearer_token h) \<Longrightarrow> Option.bind (bearer_token h) (jwt_verify e) = Some (i, iat) \<Longrightarrow>
     protect e s h = (if iat * 1000 < c then Inl StalePassword else Inr (unselect_password d))"
  by (simp add: protect_unfold findById_def changedPasswordAfter_iff unselect_password_def)

lemma updatePassword_success:
  assumes "updatePassword e s req_user cur pw pwc t salt = (s', Inr r)"
  shows "\<exists>u d'. findById_with_password s (user_id req_user) = Some u \<and>
           save e True salt t (pw \<noteq> password u) (u\<lparr>password := pw, passwordConfirm := pwc\<rparr>) s
             = Inr (s', d')"
  using assms
  by (auto simp: updatePassword_def Let_def split: option.splits sum.splits if_splits prod.splits)

lemma resetPassword_success:
  assumes "resetPassword e s tok pw pwc tq t salt = (s', Inr r)"
  shows "\<exists>u d'. findOne_reset s (sha256 e tok) tq = Some u \<and>
           save e True salt t (pw \<noteq> password u)
             (u\<lparr>password := pw, passwordConfirm := pwc, passwordResetToken := None,
                passwordResetExpires := None\<rparr>) s = Inr (s', d')"
  using assms
  by (auto simp: resetPassword_def Let_def split: option.splits sum.splits if_splits prod.splits)

lemma findOne_reset_Some:
  "findOne_reset s h t = Some u \<Longrightarrow>
     \<exists>u0. u0 \<in> set s \<and> reset_matches h t u0 \<and> u = unselect_password u0"
  by (auto simp: findOne_reset_def dest: find_Some_mem)

text \<open>
  A save that hashes a new password of a stored user moves the boundary of the stale check
  to one second before the save.
\<close>

lemma stale_after_save:
  assumes sv: "save e True salt t1 True d s = Inr (s', d')"
    and mem: "find (\<lambda>x. user_id x = user_id d) s \<noteq> None"
    and tr: "truthy (bearer_token h)"
    and jw: "Option.bind (bearer_token h) (jwt_verify e) = Some (user_id d, iat)"
  shows "protect e s' h =
           (if iat * 1000 < t1 - 1000 then Inl StalePassword else Inr (unselect_password d'))"
proof -
  from save_modified [OF sv] obtain p where
    s': "s' = write_back True d' s" and
    d': "d' = d\<lparr>password := Some (bcrypt_hash e p salt), passwordConfirm := None,
                passwordChangedAt := Some (t1 - 1000)\<rparr>"
    by blast
  have id: "user_id d' = user_id d" by (simp add: d')
  have "find (\<lambda>x. user_id x = user_id d) s' = Some d'"
    using mem by (auto simp: s' find_write_back id)
  moreover have "passwordChangedAt d' = Some (t1 - 1000)" by (simp add: d')
  ultimately show ?thesis using tr jw by (rule protect_resolved)
qed

lemma resetPassword_no_match_iff:
  "snd (resetPassword e s tok pw pwc now saveNow salt) = Inl InvalidOrExpiredToken \<longleftrightarrow>
     list_all (\<lambda>x. \<not> reset_matches (sha256 e tok) now x) s"
proof (cases "find (reset_matches (sha256 e tok) now) s")
  case None
  then have "list_all (\<lambda>x. \<not> reset_matches (sha256 e tok) now x) s"
    by (auto simp: find_None_iff list_all_iff)
  with None show ?thesis
    by (simp add: resetPassword_def findOne_reset_def)
next
  case (Some u0)
  then have "\<not> list_all (\<lambda>x. \<not> reset_matches (sha256 e tok) now x) s"
    by (auto simp: list_all_iff dest: find_Some_mem)
  moreover have "snd (resetPassword e s tok pw pwc now saveNow salt) \<noteq> Inl InvalidOrExpiredToken"
    using Some
    by (auto simp: resetPassword_def findOne_reset_def Let_def save_def pre_save_def
        split: sum.splits prod.splits if_splits option.splits)
  ultimately show ?thesis by simp
qed

lemma resetPassword_no_match:
  "list_all (\<lambda>x. \<not> reset_matches (sha256 e tok) now x) s \<Longrightarrow>
     resetPassword e s tok pw pwc now saveNow salt = (s, Inl InvalidOrExpiredToken)"
proof -
  assume "list_all (\<lambda>x. \<not> reset_matches (sha256 e tok) now x) s"
  then have "find (reset_matches (sha256 e tok) now) s = None"
    by (auto simp: find_None_iff list_all_iff)
  then show ?thesis
    by (simp add: resetPassword_def findOne_reset_def)
qed

text \<open>A reset with a matching token and a valid new password, written out.\<close>

lemma resetPassword_valid:
  assumes found: "findOne_reset s (sha256 e tok) now = Some u"
    and nm: "name_ok u" and em: "email_ok e u" and len: "6 \<le> length p"
  shows "resetPassword e s tok (Some p) (Some p) now saveNow salt =
           (write_back True
              (u\<lparr>password := Some (bcrypt_hash e p salt), passwordConfirm := None,
                 passwordChangedAt := Some (saveNow - 1000), passwordResetToken := None,
                 passwordResetExpires := None\<rparr>) s,
            Inr (Response 200 ''success'' (Some (createToken e (user_id u)))
              (Some (u\<lparr>password := None, passwordConfirm := None,
                 passwordChangedAt := Some (saveNow - 1000), passwordResetToken := None,
                 passwordResetExpires := None\<rparr>)) None))"
proof -
  let ?u1 = "u\<lparr>password := Some p, passwordConfirm := Some p,
               passwordResetToken := None, passwordResetExpires := None\<rparr>"
  from found have pn: "password u = None"
    by (auto simp: unselect_password_def dest: findOne_reset_Some)
  have ne: "p \<noteq> []" using len by auto
  have v: "validation_errors e ?u1 = []"
    using nm em len ne
    by (simp add: validation_errors_Nil password_ok_iff passwordConfirm_ok_def name_ok_def
        email_ok_def required_ok_def)
  have r: "resetPassword e s tok (Some p) (Some p) now saveNow salt =
           (write_back True
              (?u1\<lparr>password := Some (bcrypt_hash e p salt), passwordConfirm := None,
                 passwordChangedAt := Some (saveNow - 1000)\<rparr>) s,
            Inr (Response 200 ''success'' (Some (createToken e (user_id u)))
              (Some (?u1\<lparr>password := Some (bcrypt_hash e p salt), passwordConfirm := None,
                 passwordChangedAt := Some (saveNow - 1000), password := None\<rparr>)) None))"
    by (simp add: resetPassword_def found Let_def save_def v pn pre_save_def
        sendTokenResponse_def)
  show ?thesis
    unfolding r by (cases u) simp
qed

lemma write_back_twice:
  "user_id d2 = user_id d1 \<Longrightarrow>
     write_back False d2 (write_back False d1 s) = write_back False d2 s"
  by (induction s) (auto simp: write_back_def)

text \<open>\<^verbatim>\<open>forgetPassword\<close> for a known email, written out.\<close>

lemma forgetPassword_found:
  "findOne_email e s em = Some u \<Longrightarrow>
     forgetPassword e s em raw now mailOk =
       (if mailOk
        then (write_back False (u\<lparr>passwordResetToken := Some (sha256 e raw),
                 passwordResetExpires := Some (now + 600000)\<rparr>) s,
              Inr (Response 200 ''success'' None None (Some ''Token sent to email.'')))
        else (write_back False (u\<lparr>passwordResetToken := None, passwordResetExpires := None\<rparr>) s,
              Inl DeliveryError))"
  by (simp add: forgetPassword_def save_unmodified createPasswordResetToken_def write_back_twice)

lemma find_email_write_back:
  "find (email_matches e em) s = Some u0 \<Longrightarrow> email_matches e em d \<Longrightarrow>
   user_id d = user_id u0 \<Longrightarrow>
     \<exists>x::user. find (email_matches e em) (write_back False d s) =
       Some (d\<lparr>password := password x\<rparr>)"
proof (induction s)
  case Nil
  then show ?case by simp
next
  case (Cons a s)
  have em: "\<And>q. email_matches e em (d\<lparr>password := q\<rparr>)"
    using Cons.prems(2) by (simp add: email_matches_def split: option.splits)
  show ?case
  proof (cases "user_id a = user_id d")
    case True
    then have "find (email_matches e em) (write_back False d (a # s)) =
                 Some (d\<lparr>password := password a\<rparr>)"
      using em by (simp add: write_back_def)
    then show ?thesis by blast
  next
    case False
    with Cons.prems have "\<not> email_matches e em a" by auto
    with Cons False show ?thesis by (auto simp: write_back_def)
  qed
qed

lemma findOne_email_after_issue:
  assumes f: "findOne_email e s em = Some u"
  shows "findOne_email e
           (write_back False (u\<lparr>passwordResetToken := a, passwordResetExpires := b\<rparr>) s) em =
         Some (u\<lparr>passwordResetToken := a, passwordResetExpires := b\<rparr>)"
proof -
  from f obtain u0 where u0: "find (email_matches e em) s = Some u0" "u = unselect_password u0"
    by (auto simp: findOne_email_def)
  let ?d = "u\<lparr>passwordResetToken := a, passwordResetExpires := b\<rparr>"
  have "email_matches e em u0" using u0(1) by (auto dest: find_Some_mem)
  then have 1: "email_matches e em ?d"
    by (simp add: email_matches_def u0(2) unselect_password_def split: option.splits)
  have 2: "user_id ?d = user_id u0" by (simp add: u0(2) unselect_password_def)
  from find_email_write_back [OF u0(1) 1 2] obtain x :: user where
    "find (email_matches e em) (write_back False ?d s) = Some (?d\<lparr>password := password x\<rparr>)"
    by blast
  then show ?thesis
    by (simp add: findOne_email_def unselect_password_def u0(2))
qed

text \<open>Two requests for the same email leave the collection as the second alone would.\<close>

lemma forgetPassword_twice:
  "fst (forgetPassword e (fst (forgetPassword e s em raw1 t1 True)) em raw2 t2 True) =
   fst (forgetPassword e s em raw2 t2 True)"
proof (cases "findOne_email e s em")
  case None
  then show ?thesis by (simp add: forgetPassword_def)
next
  case (Some u)
  show ?thesis
    by (simp add: forgetPassword_found [OF Some]
        forgetPassword_found [OF findOne_email_after_issue [OF Some]] write_back_twice)
qed

lemma short_password_invalid:
  "password d = Some p \<Longrightarrow> length p < 6 \<Longrightarrow>
     ''password'' \<in> set (validation_errors e d) \<and> validation_errors e d \<noteq> []"
  by (auto simp: validation_errors_def password_ok_def minlength_ok_def)

lemma signUp_short:
  assumes "length p < 6"
  shows "\<exists>paths. signUp e s nm em (Some p) pwc new_id salt now mailOk =
           (s, Inl (ValidationError paths)) \<and> ''password'' \<in> set paths"
proof -
  let ?d = "\<lparr>user_id = new_id, name = nm, email = map_option (toLowerCase e) em,
               password = Some p, passwordConfirm = pwc, role = RoleUser,
               passwordChangedAt = None, passwordResetToken = None,
               passwordResetExpires = None\<rparr>"
  have "''password'' \<in> set (validation_errors e ?d) \<and> validation_errors e ?d \<noteq> []"
    using assms by (intro short_password_invalid) simp_all
  then show ?thesis
    by (simp add: signUp_def create_def Let_def)
qed

lemma resetPassword_short:
  assumes "length p < 6"
  shows "\<exists>err. resetPassword e s tok (Some p) pwc now saveNow salt = (s, Inl err) \<and>
           (if findOne_reset s (sha256 e tok) now = None then err = InvalidOrExpiredToken
            else \<exists>paths. err = ValidationError paths \<and> ''password'' \<in> set paths)"
proof (cases "findOne_reset s (sha256 e tok) now")
  case None
  then show ?thesis by (simp add: resetPassword_def)
next
  case (Some u)
  let ?d = "u\<lparr>password := Some p, passwordConfirm := pwc, passwordResetToken := None,
              passwordResetExpires := None\<rparr>"
  have "''password'' \<in> set (validation_errors e ?d) \<and> validation_errors e ?d \<noteq> []"
    using assms by (intro short_password_invalid) simp_all
  with Some show ?thesis
    by (simp add: resetPassword_def save_def Let_def)
qed

lemma updatePassword_short:
  assumes "length p < 6"
  shows "\<exists>err. updatePassword e s req_user cur (Some p) pwc now salt = (s, Inl err) \<and>
           (case findById_with_password s (user_id req_user) of
              None \<Rightarrow> err = TypeError
            | Some u \<Rightarrow>
                (case passwordMatching e cur (password u) of
                   Inl bad \<Rightarrow> err = bad
                 | Inr correct \<Rightarrow>
                     if correct
                     then \<exists>paths. err = ValidationError paths \<and> ''password'' \<in> set paths
                     else err = AppError ''Your current password is incorrect'' 401))"
proof (cases "findById_with_password s (user_id req_user)")
  case None
  then show ?thesis by (simp add: updatePassword_def)
next
  case (Some u)
  let ?d = "u\<lparr>password := Some p, passwordConfirm := pwc\<rparr>"
  have v: "''password'' \<in> set (validation_errors e ?d) \<and> validation_errors e ?d \<noteq> []"
    using assms by (intro short_password_invalid) simp_all
  show ?thesis
  proof (cases "passwordMatching e cur (password u)")
    case (Inl err)
    with Some show ?thesis by (simp add: updatePassword_def)
  next
    case (Inr b)
    with Some v show ?thesis
      by (cases b) (simp_all add: updatePassword_def save_def Let_def)
  qed
qed

subsection \<open>Login\<close>

text \<open>
  Claim C1, as the code has it. A login that fails because no user has the email, or because
  the password comparison returns false, gets the same error: status 401, message
  \<^verbatim>\<open>Invalid email or password\<close>. A login with the email or the password absent (or
  empty) gets another one: status 400, message \<^verbatim>\<open>Please provide valid email and password.\<close>
\<close>

theorem login_failures:
  "(\<not> truthy em \<or> \<not> truthy pw \<longrightarrow>
      login e s em pw = Inl (AppError ''Please provide valid email and password.'' 400)) \<and>
   (truthy em \<and> truthy pw \<and> findOne_email_with_password e s em = None \<longrightarrow>
      login e s em pw = Inl InvalidCredentials) \<and>
   (\<forall>u p h. truthy em \<and> pw = Some p \<and> p \<noteq> [] \<and>
      findOne_email_with_password e s em = Some u \<and>
      password u = Some h \<and> \<not> bcrypt_compare e p h \<longrightarrow>
      login e s em pw = Inl InvalidCredentials)"
  by (simp add: login_def passwordMatching_def truthy_def)

text \<open>The three failures on the small instance, through the theorem.\<close>

theorem login_failures_witness:
  "login env0 [alice] None (Some ''secret'') =
     Inl (AppError ''Please provide valid email and password.'' 400) \<and>
   login env0 [alice] (Some ''x@y.z'') (Some ''secret'') = Inl InvalidCredentials \<and>
   login env0 [alice] (Some ''a@b.c'') (Some ''wrong'') = Inl InvalidCredentials"
proof -
  have a: "\<not> truthy None" "truthy (Some ''x@y.z'')" "truthy (Some ''secret'')"
    "truthy (Some ''a@b.c'')"
    by (simp_all add: truthy_def)
  have b: "findOne_email_with_password env0 [alice] (Some ''x@y.z'') = None"
    by (simp add: findOne_email_with_password_def email_matches_def env0_def alice_def)
  have c: "findOne_email_with_password env0 [alice] (Some ''a@b.c'') = Some alice \<and>
           password alice = Some ''$secret'' \<and> \<not> bcrypt_compare env0 ''wrong'' ''$secret'' \<and>
           ''wrong'' \<noteq> []"
    by (simp add: findOne_email_with_password_def email_matches_def env0_def alice_def)
  have 1: "login env0 [alice] None (Some ''secret'') =
     Inl (AppError ''Please provide valid email and password.'' 400)"
    using login_failures [of None "Some ''secret''" env0 "[alice]"] a by blast
  have 2: "login env0 [alice] (Some ''x@y.z'') (Some ''secret'') = Inl InvalidCredentials"
    using login_failures [of "Some ''x@y.z''" "Some ''secret''" env0 "[alice]"] a b by blast
  have 3: "login env0 [alice] (Some ''a@b.c'') (Some ''wrong'') = Inl InvalidCredentials"
    using login_failures [of "Some ''a@b.c''" "Some ''wrong''" env0 "[alice]"] a c by blast
  from 1 2 3 show ?thesis by blast
qed

text \<open>
  The claim as the specification words it asks for one response in all three cases. A login
  without an email and a login with an unknown email differ in status and in message.
\<close>

theorem login_failures_counterexample:
  "login env0 [alice] None (Some ''secret'') =
     Inl (AppError ''Please provide valid email and password.'' 400) \<and>
   login env0 [alice] (Some ''x@y.z'') (Some ''secret'') =
     Inl (AppError ''Invalid email or password'' 401) \<and>
   login env0 [alice] None (Some ''secret'') \<noteq> login env0 [alice] (Some ''x@y.z'') (Some ''secret'')"
  by (simp add: login_def truthy_def findOne_email_with_password_def email_matches_def
      passwordMatching_def env0_def alice_def)

subsection \<open>Sign-up\<close>

text \<open>
  Claim C3. When \<^verbatim>\<open>User.create\<close> succeeds, the response of \<^verbatim>\<open>signUp\<close> has status 201, the
  token made for the new user and the new user without a password, whether the welcome mail
  was sent or not; the two outcomes of the mail give the same result.
\<close>

theorem signUp_response:
  "create e new_id salt now nm em pw pwc s = Inr (s', newUser) \<Longrightarrow>
     signUp e s nm em pw pwc new_id salt now mailOk =
       (s', Inr (Response 201 ''success'' (Some (createToken e (user_id newUser)))
                  (Some (newUser\<lparr>password := None\<rparr>)) None)) \<and>
     password (newUser\<lparr>password := None\<rparr>) = None \<and>
     signUp e s nm em pw pwc new_id salt now False = signUp e s nm em pw pwc new_id salt now True"
  by (simp add: signUp_def sendTokenResponse_def)

text \<open>A sign-up on the small instance whose welcome mail fails.\<close>

theorem signUp_response_witness:
  "signUp env0 [alice] (Some ''Bob'') (Some ''b@b.c'') (Some ''hunter2'') (Some ''hunter2'')
       2 ''salt'' 5 False =
     ([alice, alice\<lparr>user_id := 2, name := Some ''Bob'', email := Some ''b@b.c'',
                password := Some ''$hunter2''\<rparr>],
      Inr (Response 201 ''success'' (Some ''jwt'')
        (Some (alice\<lparr>user_id := 2, name := Some ''Bob'', email := Some ''b@b.c'',
                password := None\<rparr>)) None))"
proof -
  have c: "create env0 2 ''salt'' 5 (Some ''Bob'') (Some ''b@b.c'') (Some ''hunter2'')
             (Some ''hunter2'') [alice] =
           Inr ([alice, alice\<lparr>user_id := 2, name := Some ''Bob'', email := Some ''b@b.c'',
                password := Some ''$hunter2''\<rparr>],
                alice\<lparr>user_id := 2, name := Some ''Bob'', email := Some ''b@b.c'',
                password := Some ''$hunter2''\<rparr>)"
    by (simp add: instance_defs)
  have t: "createToken env0 2 = ''jwt''"
    by (simp add: env0_def)
  from signUp_response [OF c, of False] t show ?thesis
    by simp
qed

subsection \<open>The access gate\<close>

text \<open>
  Claim C4. \<^verbatim>\<open>protect\<close> fails with \<open>Unauthenticated\<close> when the header gives no bearer
  token (no header, a header that does not start with \<^verbatim>\<open>Bearer\<close>, or nothing after the
  first space). With a token that verifies, it fails with \<open>UserGone\<close> when the token's id finds no
  user, and with \<open>StalePassword\<close> when the user's password-changed time is later than the
  token's issued-at; otherwise it attaches the user it found. It attaches a user only when
  there is a token, the token verifies, its id finds that user and the stale check is false.
\<close>

theorem protect_outcomes:
  "protect e s None = Inl Unauthenticated \<and>
   (\<not> startsWith hdr ''Bearer'' \<longrightarrow> protect e s (Some hdr) = Inl Unauthenticated) \<and>
   (\<not> truthy (bearer_token h) \<longrightarrow> protect e s h = Inl Unauthenticated) \<and>
   (truthy (bearer_token h) \<and> Option.bind (bearer_token h) (jwt_verify e) = Some (i, iat) \<longrightarrow>
      (findById s i = None \<longrightarrow> protect e s h = Inl UserGone) \<and>
      (\<forall>u c. findById s i = Some u \<and> passwordChangedAt u = Some c \<and> iat * 1000 < c \<longrightarrow>
         protect e s h = Inl StalePassword) \<and>
      (\<forall>u. findById s i = Some u \<and> \<not> changedPasswordAfter u iat \<longrightarrow> protect e s h = Inr u)) \<and>
   (\<forall>u. protect e s h = Inr u \<longrightarrow>
      truthy (bearer_token h) \<and>
      (\<exists>i iat. Option.bind (bearer_token h) (jwt_verify e) = Some (i, iat) \<and>
         findById s i = Some u \<and> \<not> changedPasswordAfter u iat))"
proof -
  have "\<not> truthy (bearer_token None)"
    by (simp add: bearer_token_def truthy_def)
  moreover have "\<not> startsWith hdr ''Bearer'' \<longrightarrow> \<not> truthy (bearer_token (Some hdr))"
    by (simp add: bearer_token_def truthy_def)
  ultimately show ?thesis
    by (auto simp: protect_unfold changedPasswordAfter_iff split: option.splits if_splits)
qed

text \<open>The four outcomes on the small instance, through the theorem.\<close>

theorem protect_outcomes_witness:
  "protect env0 [alice] None = Inl Unauthenticated \<and>
   protect env0 [] (Some ''Bearer abc'') = Inl UserGone \<and>
   protect env0 [alice\<lparr>passwordChangedAt := Some 9001\<rparr>] (Some ''Bearer abc'') =
     Inl StalePassword \<and>
   protect env0 [alice] (Some ''Bearer abc'') = Inr (unselect_password alice) \<and>
   truthy (bearer_token (Some ''Bearer abc'')) \<and>
   protect env0 [alice] (Some ''Basic abc'') = Inl Unauthenticated"
proof -
  have b: "bearer_token (Some ''Bearer abc'') = Some ''abc''"
    by (simp add: bearer_token_def at_index_def)
  have t: "truthy (bearer_token (Some ''Bearer abc''))"
    by (simp add: b truthy_def)
  have j: "Option.bind (bearer_token (Some ''Bearer abc'')) (jwt_verify env0) = Some (1, 9)"
    by (simp add: b env0_def)
  have n: "\<not> truthy (bearer_token None)"
    by (simp add: bearer_token_def truthy_def)
  have 1: "protect env0 [alice] None = Inl Unauthenticated"
    using protect_outcomes [of env0 "[alice]" "''Basic abc''" None 1 9] n by blast
  have g: "findById [] 1 = None"
    by (simp add: findById_def)
  have 2: "protect env0 [] (Some ''Bearer abc'') = Inl UserGone"
    using protect_outcomes [of env0 "[]" "''Basic abc''" "Some ''Bearer abc''" 1 9] t j g by blast
  have f3: "findById [alice\<lparr>passwordChangedAt := Some 9001\<rparr>] 1 =
              Some (unselect_password (alice\<lparr>passwordChangedAt := Some 9001\<rparr>)) \<and>
            passwordChangedAt (unselect_password (alice\<lparr>passwordChangedAt := Some 9001\<rparr>)) =
              Some 9001 \<and>
            (9::int) * 1000 < 9001"
    by (simp add: findById_def alice_def unselect_password_def)
  have 3: "protect env0 [alice\<lparr>passwordChangedAt := Some 9001\<rparr>] (Some ''Bearer abc'') =
             Inl StalePassword"
    using protect_outcomes
      [of env0 "[alice\<lparr>passwordChangedAt := Some 9001\<rparr>]" "''Basic abc''"
        "Some ''Bearer abc''" 1 9]
      t j f3 by blast
  have f4: "findById [alice] 1 = Some (unselect_password alice) \<and>
            \<not> changedPasswordAfter (unselect_password alice) 9"
    by (simp add: findById_def alice_def unselect_password_def changedPasswordAfter_def)
  have 4: "protect env0 [alice] (Some ''Bearer abc'') = Inr (unselect_password alice)"
    using protect_outcomes [of env0 "[alice]" "''Basic abc''" "Some ''Bearer abc''" 1 9] t j f4
    by blast
  have 5: "truthy (bearer_token (Some ''Bearer abc''))"
    using protect_outcomes [of env0 "[alice]" "''Basic abc''" "Some ''Bearer abc''" 1 9] 4
    by blast
  have b6: "\<not> startsWith ''Basic abc'' ''Bearer''"
    by simp
  have 6: "protect env0 [alice] (Some ''Basic abc'') = Inl Unauthenticated"
    using protect_outcomes [of env0 "[alice]" "''Basic abc''" "Some ''Bearer abc''" 1 9] b6
    by blast
  from 1 2 3 4 5 6 show ?thesis by blast
qed

text \<open>
  Claim C9. A user without a password-changed time is never stale: the check is false for
  every issued-at, and \<^verbatim>\<open>protect\<close> attaches that user whenever a token resolves to it;
  it never answers \<open>StalePassword\<close> for it.
\<close>

theorem never_changed_never_stale:
  "passwordChangedAt u = None \<Longrightarrow>
     \<not> changedPasswordAfter u tokenIssuedAt \<and>
     (Option.bind (bearer_token h) (jwt_verify e) = Some (user_id u, tokenIssuedAt) \<longrightarrow>
        findById s (user_id u) = Some u \<longrightarrow> truthy (bearer_token h) \<longrightarrow>
        protect e s h = Inr u) \<and>
     (\<forall>i iat. Option.bind (bearer_token h) (jwt_verify e) = Some (i, iat) \<longrightarrow>
        findById s i = Some u \<longrightarrow> protect e s h \<noteq> Inl StalePassword)"
  by (auto simp: protect_unfold changedPasswordAfter_def)

text \<open>The user of the small instance has never changed the password.\<close>

theorem never_changed_never_stale_witness:
  "passwordChangedAt (unselect_password alice) = None \<and>
   \<not> changedPasswordAfter (unselect_password alice) 9 \<and>
   protect env0 [alice] (Some ''Bearer abc'') = Inr (unselect_password alice)"
proof -
  have h: "passwordChangedAt (unselect_password alice) = None"
    by (simp add: unselect_password_def alice_def)
  have b: "bearer_token (Some ''Bearer abc'') = Some ''abc''"
    by (simp add: bearer_token_def at_index_def)
  have j: "Option.bind (bearer_token (Some ''Bearer abc'')) (jwt_verify env0) =
             Some (user_id (unselect_password alice), 9)"
    by (simp add: b env0_def unselect_password_def alice_def)
  have f: "findById [alice] (user_id (unselect_password alice)) = Some (unselect_password alice)"
    by (simp add: findById_def unselect_password_def alice_def)
  have t: "truthy (bearer_token (Some ''Bearer abc''))"
    by (simp add: b truthy_def)
  from never_changed_never_stale [OF h, of 9 "Some ''Bearer abc''" env0 "[alice]"] h j f t
  show ?thesis by blast
qed

text \<open>
  Claim C2, as the code has it. The hook stores the time of the change less one second.
  After a password change at \<open>tchange\<close>, the clock the hook reads when it hashes the new
  password (in \<^verbatim>\<open>updatePassword\<close> with a new password, or in \<^verbatim>\<open>resetPassword\<close>, whose
  token query read the clock before, at \<open>tquery\<close>), a verified token of that user is
  refused with \<open>StalePassword\<close> exactly when its issued-at, in milliseconds, is before
  \<open>tchange - 1000\<close>.
\<close>

theorem stale_after_password_change:
  "(updatePassword e s req_user cur pw pwc tchange salt = (s', Inr r) \<and>
    findById_with_password s (user_id req_user) = Some u \<and> pw \<noteq> password u \<longrightarrow>
      (\<forall>h iat. truthy (bearer_token h) \<and>
         Option.bind (bearer_token h) (jwt_verify e) = Some (user_id u, iat) \<longrightarrow>
         (protect e s' h = Inl StalePassword) = (iat * 1000 < tchange - 1000))) \<and>
   (resetPassword e s tok pw pwc tquery tchange salt = (s', Inr r) \<and>
    findOne_reset s (sha256 e tok) tquery = Some u \<longrightarrow>
      (\<forall>h iat. truthy (bearer_token h) \<and>
         Option.bind (bearer_token h) (jwt_verify e) = Some (user_id u, iat) \<longrightarrow>
         (protect e s' h = Inl StalePassword) = (iat * 1000 < tchange - 1000)))"
proof (intro conjI impI allI)
  fix h iat
  assume a: "updatePassword e s req_user cur pw pwc tchange salt = (s', Inr r) \<and>
    findById_with_password s (user_id req_user) = Some u \<and> pw \<noteq> password u"
    and b: "truthy (bearer_token h) \<and>
         Option.bind (bearer_token h) (jwt_verify e) = Some (user_id u, iat)"
  from a updatePassword_success [of e s req_user cur pw pwc tchange salt s' r]
  obtain d' where sv:
    "save e True salt tchange True (u\<lparr>password := pw, passwordConfirm := pwc\<rparr>) s = Inr (s', d')"
    by auto
  have "u \<in> set s"
    using a by (auto simp: findById_with_password_def dest: find_Some_mem)
  then have "find (\<lambda>x. user_id x = user_id u) s \<noteq> None"
    by (rule find_user_id_mem)
  with stale_after_save [OF sv, of h iat] b
  show "(protect e s' h = Inl StalePassword) = (iat * 1000 < tchange - 1000)"
    by simp
next
  fix h iat
  assume a: "resetPassword e s tok pw pwc tquery tchange salt = (s', Inr r) \<and>
    findOne_reset s (sha256 e tok) tquery = Some u"
    and b: "truthy (bearer_token h) \<and>
         Option.bind (bearer_token h) (jwt_verify e) = Some (user_id u, iat)"
  from a resetPassword_success [of e s tok pw pwc tquery tchange salt s' r]
  obtain d' where sv0: "save e True salt tchange (pw \<noteq> password u)
             (u\<lparr>password := pw, passwordConfirm := pwc, passwordResetToken := None,
                passwordResetExpires := None\<rparr>) s = Inr (s', d')"
    by auto
  from a obtain u0 where u0: "u0 \<in> set s" "u = unselect_password u0"
    by (auto dest: findOne_reset_Some)
  have pn: "password u = None" by (simp add: u0 unselect_password_def)
  have "pw \<noteq> None"
    using save_validated [OF sv0] by auto
  with sv0 pn have sv: "save e True salt tchange True
             (u\<lparr>password := pw, passwordConfirm := pwc, passwordResetToken := None,
                passwordResetExpires := None\<rparr>) s = Inr (s', d')"
    by simp
  have "find (\<lambda>x. user_id x = user_id u) s \<noteq> None"
    using u0 find_user_id_mem [of u0 s] by (simp add: unselect_password_def)
  with stale_after_save [OF sv, of h iat] b
  show "(protect e s' h = Inl StalePassword) = (iat * 1000 < tchange - 1000)"
    by simp
qed

text \<open>
  On the small instance: a change by \<^verbatim>\<open>updatePassword\<close> at 10001 ms makes the token of
  second 9 stale; a change by \<^verbatim>\<open>resetPassword\<close>, whose query ran at 8000 ms and whose
  hook ran at 10000 ms, does not.
\<close>

theorem stale_after_password_change_witness:
  "protect env0 [alice\<lparr>password := Some ''$newpass'', passwordChangedAt := Some 9001\<rparr>]
       (Some ''Bearer abc'') = Inl StalePassword \<and>
   protect env0 [alice\<lparr>password := Some ''$newpass'', passwordChangedAt := Some 9000\<rparr>]
       (Some ''Bearer abc'') \<noteq> Inl StalePassword"
proof -
  let ?h = "Some ''Bearer abc''"
  have t: "truthy (bearer_token ?h) \<and>
           Option.bind (bearer_token ?h) (jwt_verify env0) = Some (user_id alice, 9)"
    by (simp add: instance_defs)
  have u: "updatePassword env0 [alice] alice (Some ''secret'') (Some ''newpass'')
             (Some ''newpass'') 10001 ''salt'' =
           ([alice\<lparr>password := Some ''$newpass'', passwordChangedAt := Some 9001\<rparr>],
            Inr (Response 200 ''success'' (Some ''jwt'')
              (Some (alice\<lparr>password := None, passwordChangedAt := Some 9001\<rparr>)) None)) \<and>
           findById_with_password [alice] (user_id alice) = Some alice \<and>
           Some ''newpass'' \<noteq> password alice"
    by (simp add: instance_defs)
  have 1: "protect env0 [alice\<lparr>password := Some ''$newpass'', passwordChangedAt := Some 9001\<rparr>]
       ?h = Inl StalePassword"
    using stale_after_password_change [where e = env0 and s = "[alice]" and req_user = alice
        and cur = "Some ''secret''" and pw = "Some ''newpass''" and pwc = "Some ''newpass''"
        and tchange = 10001 and salt = "''salt''" and u = alice] u t
    by simp
  have r: "resetPassword env0
             [alice\<lparr>passwordResetToken := Some ''#r1'', passwordResetExpires := Some 600100\<rparr>]
             ''r1'' (Some ''newpass'') (Some ''newpass'') 8000 10000 ''salt'' =
           ([alice\<lparr>password := Some ''$newpass'', passwordChangedAt := Some 9000\<rparr>],
            Inr (Response 200 ''success'' (Some ''jwt'')
              (Some (alice\<lparr>password := None, passwordChangedAt := Some 9000\<rparr>)) None)) \<and>
           findOne_reset
             [alice\<lparr>passwordResetToken := Some ''#r1'', passwordResetExpires := Some 600100\<rparr>]
             (sha256 env0 ''r1'') 8000 =
           Some (alice\<lparr>password := None, passwordResetToken := Some ''#r1'',
                   passwordResetExpires := Some 600100\<rparr>)"
    by (simp add: instance_defs)
  have i: "user_id (alice\<lparr>password := None, passwordResetToken := Some ''#r1'',
                   passwordResetExpires := Some 600100\<rparr>) = user_id alice"
    by simp
  have 2: "protect env0 [alice\<lparr>password := Some ''$newpass'', passwordChangedAt := Some 9000\<rparr>]
       ?h \<noteq> Inl StalePassword"
    using stale_after_password_change [where e = env0
        and s = "[alice\<lparr>passwordResetToken := Some ''#r1'',
                   passwordResetExpires := Some 600100\<rparr>]"
        and tok = "''r1''" and pw = "Some ''newpass''" and pwc = "Some ''newpass''"
        and tquery = 8000 and tchange = 10000 and salt = "''salt''"] r t i
    by simp
  from 1 2 show ?thesis by blast
qed

text \<open>
  The claim as the specification words it refuses every token issued before the change. The
  password of the small instance's user is changed at 10000 ms, that is second 10; the token
  issued at second 9 passes the gate afterwards.
\<close>

theorem stale_after_password_change_counterexample:
  "updatePassword env0 [alice] alice (Some ''secret'') (Some ''newpass'') (Some ''newpass'')
       10000 ''salt'' =
     ([alice\<lparr>password := Some ''$newpass'', passwordChangedAt := Some 9000\<rparr>],
      Inr (Response 200 ''success'' (Some ''jwt'')
        (Some (alice\<lparr>password := None, passwordChangedAt := Some 9000\<rparr>)) None)) \<and>
   jwt_verify env0 ''abc'' = Some (1, 9) \<and> (9::int) * 1000 < 10000 \<and>
   protect env0 [alice\<lparr>password := Some ''$newpass'', passwordChangedAt := Some 9000\<rparr>]
       (Some ''Bearer abc'') =
     Inr (alice\<lparr>password := None, passwordChangedAt := Some 9000\<rparr>)"
  by (simp add: instance_defs)

subsection \<open>The reset workflow\<close>

text \<open>
  Claim C5. A reset token issued with raw value \<open>raw\<close> at time \<open>t\<close> stores the hash of
  \<open>raw\<close> and the expiry \<open>t + 600000\<close>. Presenting \<open>raw\<close> at \<open>now\<close> matches the stored pair
  exactly when \<open>now\<close> is before the expiry. A presented value whose hash is not the stored one
  never matches, whatever the time; with a hash that has no collisions that is every value
  other than \<open>raw\<close>. \<^verbatim>\<open>resetPassword\<close> answers \<open>InvalidOrExpiredToken\<close> exactly when no
  document matches.
\<close>

theorem reset_round_trip:
  "passwordResetToken (fst (createPasswordResetToken e raw t u)) = Some (sha256 e raw) \<and>
   passwordResetExpires (fst (createPasswordResetToken e raw t u)) = Some (t + 600000) \<and>
   snd (createPasswordResetToken e raw t u) = raw \<and>
   (reset_matches (sha256 e raw) now (fst (createPasswordResetToken e raw t u)) \<longleftrightarrow>
      now < t + 600000) \<and>
   (sha256 e presented \<noteq> sha256 e raw \<longrightarrow>
      \<not> reset_matches (sha256 e presented) now (fst (createPasswordResetToken e raw t u))) \<and>
   (inj (sha256 e) \<and> presented \<noteq> raw \<longrightarrow>
      \<not> reset_matches (sha256 e presented) now (fst (createPasswordResetToken e raw t u))) \<and>
   (snd (resetPassword e s presented pw pwc now saveNow salt) = Inl InvalidOrExpiredToken \<longleftrightarrow>
      list_all (\<lambda>x. \<not> reset_matches (sha256 e presented) now x) s) \<and>
   (snd (resetPassword e [fst (createPasswordResetToken e raw t u)] presented pw pwc now saveNow salt)
      = Inl InvalidOrExpiredToken \<longleftrightarrow>
      \<not> (sha256 e presented = sha256 e raw \<and> now < t + 600000))"
  by (auto simp: resetPassword_no_match_iff createPasswordResetToken_def reset_matches_def
      dest: injD)

text \<open>
  On the small instance: the token \<^verbatim>\<open>r1\<close> issued at 100 ms matches at 200 ms and no longer
  at 600100 ms; the token \<^verbatim>\<open>r2\<close> does not match.
\<close>

theorem reset_round_trip_witness:
  "sha256 env0 ''r2'' \<noteq> sha256 env0 ''r1'' \<and> inj (sha256 env0) \<and> ''r2'' \<noteq> ''r1'' \<and>
   \<not> reset_matches (sha256 env0 ''r2'') 200 (fst (createPasswordResetToken env0 ''r1'' 100 alice)) \<and>
   reset_matches (sha256 env0 ''r1'') 200 (fst (createPasswordResetToken env0 ''r1'' 100 alice)) \<and>
   \<not> reset_matches (sha256 env0 ''r1'') 600100
       (fst (createPasswordResetToken env0 ''r1'' 100 alice))"
proof -
  have h: "sha256 env0 ''r2'' \<noteq> sha256 env0 ''r1''"
    by (simp add: env0_def)
  have i: "inj (sha256 env0)"
    by (simp add: env0_def inj_on_def)
  have n: "''r2'' \<noteq> ''r1''"
    by simp
  have a: "(200::int) < 100 + 600000" "\<not> (600100::int) < 100 + 600000"
    by simp_all
  from reset_round_trip [where e = env0 and raw = "''r1''" and t = 100 and u = alice
      and now = 200 and presented = "''r2''"]
    reset_round_trip [where e = env0 and raw = "''r1''" and t = 100 and u = alice
      and now = 600100 and presented = "''r2''"] h i n a
  show ?thesis by blast
qed

text \<open>
  Claim C6. When the user is found and the reset mail cannot be sent, \<^verbatim>\<open>forgetPassword\<close>
  fails with \<open>DeliveryError\<close> (503) and the collection it leaves has the two reset fields of
  that user cleared: every other document is as before, and the user is read back without a
  reset hash and without an expiry.
\<close>

theorem forgetPassword_delivery_failure:
  "findOne_email e s em = Some u \<Longrightarrow>
     forgetPassword e s em raw now False =
       (map (\<lambda>x. if user_id x = user_id u
                 then u\<lparr>passwordResetToken := None, passwordResetExpires := None,
                        password := password x\<rparr>
                 else x) s,
        Inl DeliveryError) \<and>
     (\<forall>x \<in> set (fst (forgetPassword e s em raw now False)).
        user_id x = user_id u \<longrightarrow> passwordResetToken x = None \<and> passwordResetExpires x = None) \<and>
     findById (fst (forgetPassword e s em raw now False)) (user_id u) =
       Some (u\<lparr>passwordResetToken := None, passwordResetExpires := None\<rparr>)"
proof -
  assume f: "findOne_email e s em = Some u"
  then obtain u0 where u0: "u0 \<in> set s" "u = unselect_password u0"
    by (auto simp: findOne_email_def dest: find_Some_mem)
  have m: "find (\<lambda>x. user_id x = user_id u) s \<noteq> None"
    using find_user_id_mem [OF u0(1)] by (simp add: u0 unselect_password_def)
  have 1: "forgetPassword e s em raw now False =
       (map (\<lambda>x. if user_id x = user_id u
                 then u\<lparr>passwordResetToken := None, passwordResetExpires := None,
                        password := password x\<rparr>
                 else x) s,
        Inl DeliveryError)"
    by (simp add: forgetPassword_found [OF f] write_back_def)
  have 2: "\<forall>x \<in> set (fst (forgetPassword e s em raw now False)).
        user_id x = user_id u \<longrightarrow> passwordResetToken x = None \<and> passwordResetExpires x = None"
    by (auto simp: 1)
  have 3: "findById (fst (forgetPassword e s em raw now False)) (user_id u) =
       Some (u\<lparr>passwordResetToken := None, passwordResetExpires := None\<rparr>)"
    using m
    by (auto simp: forgetPassword_found [OF f] findById_def find_write_back u0
        unselect_password_def)
  from 1 2 3 show ?thesis by blast
qed

text \<open>On the small instance the failed request leaves the collection as it found it.\<close>

theorem forgetPassword_delivery_failure_witness:
  "forgetPassword env0 [alice] (Some ''a@b.c'') ''r1'' 100 False = ([alice], Inl DeliveryError) \<and>
   findById (fst (forgetPassword env0 [alice] (Some ''a@b.c'') ''r1'' 100 False)) 1 =
     Some (unselect_password alice)"
proof -
  have f: "findOne_email env0 [alice] (Some ''a@b.c'') = Some (unselect_password alice)"
    by (simp add: findOne_email_def email_matches_def env0_def alice_def)
  have m: "map (\<lambda>x. if user_id x = user_id (unselect_password alice)
                 then (unselect_password alice)\<lparr>passwordResetToken := None,
                        passwordResetExpires := None, password := password x\<rparr>
                 else x) [alice] = [alice]"
    by (simp add: alice_def unselect_password_def)
  have i: "user_id (unselect_password alice) = 1"
    by (simp add: alice_def unselect_password_def)
  have j: "(unselect_password alice)\<lparr>passwordResetToken := None, passwordResetExpires := None\<rparr> =
             unselect_password alice"
    by (simp add: alice_def unselect_password_def)
  note t = forgetPassword_delivery_failure [OF f, of "''r1''" 100]
  from t have 1: "forgetPassword env0 [alice] (Some ''a@b.c'') ''r1'' 100 False =
      ([alice], Inl DeliveryError)"
    by (simp only: m)
  from t have 2: "findById (fst (forgetPassword env0 [alice] (Some ''a@b.c'') ''r1'' 100 False))
      (user_id (unselect_password alice)) =
     Some ((unselect_password alice)\<lparr>passwordResetToken := None, passwordResetExpires := None\<rparr>)"
    by blast
  from 1 2 show ?thesis
    by (simp only: i j)
qed

text \<open>
  Claim C7. Let the raw token \<open>raw\<close> match a user at \<open>now1\<close>, let no other user hold its
  hash, and let the new password be valid (six characters or more, confirmed, on a stored
  document with a valid name and email). Then the first \<^verbatim>\<open>resetPassword\<close> with \<open>raw\<close>
  succeeds with status 200, stores the hash of the new password and clears the reset hash
  and expiry; every later \<^verbatim>\<open>resetPassword\<close> with \<open>raw\<close>, at any time and with any
  password, fails with \<open>InvalidOrExpiredToken\<close> (400) and changes nothing.
\<close>

theorem reset_token_one_time_use:
  assumes found: "findOne_reset s (sha256 e raw) now1 = Some u"
    and nm: "name_ok u" and em: "email_ok e u" and len: "6 \<le> length p"
    and only: "list_all (\<lambda>x. passwordResetToken x = Some (sha256 e raw) \<longrightarrow>
                 user_id x = user_id u) s"
  shows "resetPassword e s raw (Some p) (Some p) now1 save1 salt =
           (write_back True
              (u\<lparr>password := Some (bcrypt_hash e p salt), passwordConfirm := None,
                 passwordChangedAt := Some (save1 - 1000), passwordResetToken := None,
                 passwordResetExpires := None\<rparr>) s,
            Inr (Response 200 ''success'' (Some (createToken e (user_id u)))
              (Some (u\<lparr>password := None, passwordConfirm := None,
                 passwordChangedAt := Some (save1 - 1000), passwordResetToken := None,
                 passwordResetExpires := None\<rparr>)) None)) \<and>
         list_all (\<lambda>x. user_id x = user_id u \<longrightarrow>
             password x = Some (bcrypt_hash e p salt) \<and> passwordResetToken x = None \<and>
             passwordResetExpires x = None)
           (fst (resetPassword e s raw (Some p) (Some p) now1 save1 salt)) \<and>
         (\<forall>pw2 pwc2 now2 save2 salt2.
            resetPassword e (fst (resetPassword e s raw (Some p) (Some p) now1 save1 salt))
                raw pw2 pwc2 now2 save2 salt2 =
              (fst (resetPassword e s raw (Some p) (Some p) now1 save1 salt),
               Inl InvalidOrExpiredToken))"
proof -
  let ?d = "u\<lparr>password := Some (bcrypt_hash e p salt), passwordConfirm := None,
                 passwordChangedAt := Some (save1 - 1000), passwordResetToken := None,
                 passwordResetExpires := None\<rparr>"
  note first = resetPassword_valid [OF found nm em len, where saveNow = save1 and salt = salt]
  have s': "fst (resetPassword e s raw (Some p) (Some p) now1 save1 salt) = write_back True ?d s"
    by (simp add: first)
  have cleared: "list_all (\<lambda>x. user_id x = user_id u \<longrightarrow>
             password x = Some (bcrypt_hash e p salt) \<and> passwordResetToken x = None \<and>
             passwordResetExpires x = None) (write_back True ?d s)"
    by (auto simp: list_all_iff write_back_def)
  have none: "list_all (\<lambda>x. \<not> reset_matches (sha256 e raw) now2 x) (write_back True ?d s)"
    for now2
    using only by (auto simp: list_all_iff write_back_def reset_matches_def)
  have second: "resetPassword e (write_back True ?d s) raw pw2 pwc2 now2 save2 salt2 =
                  (write_back True ?d s, Inl InvalidOrExpiredToken)"
    for pw2 pwc2 now2 save2 salt2
    using none by (rule resetPassword_no_match)
  from first cleared second show ?thesis
    by (simp only: s') simp
qed

text \<open>
  On the small instance: the token \<^verbatim>\<open>r1\<close> is used at 200 ms (saved at 250 ms) and again
  at 300 ms.
\<close>

theorem reset_token_one_time_use_witness:
  "resetPassword env0
       [alice\<lparr>passwordResetToken := Some ''#r1'', passwordResetExpires := Some 600100\<rparr>]
       ''r1'' (Some ''newpass'') (Some ''newpass'') 200 250 ''salt'' =
     ([alice\<lparr>password := Some ''$newpass'', passwordChangedAt := Some (-750)\<rparr>],
      Inr (Response 200 ''success'' (Some ''jwt'')
        (Some (alice\<lparr>password := None, passwordChangedAt := Some (-750)\<rparr>)) None)) \<and>
   resetPassword env0 [alice\<lparr>password := Some ''$newpass'', passwordChangedAt := Some (-750)\<rparr>]
       ''r1'' (Some ''another'') (Some ''another'') 300 350 ''salt'' =
     ([alice\<lparr>password := Some ''$newpass'', passwordChangedAt := Some (-750)\<rparr>],
      Inl InvalidOrExpiredToken)"
proof -
  let ?s = "[alice\<lparr>passwordResetToken := Some ''#r1'', passwordResetExpires := Some 600100\<rparr>]"
  let ?u = "alice\<lparr>password := None, passwordResetToken := Some ''#r1'',
              passwordResetExpires := Some 600100\<rparr>"
  have f: "findOne_reset ?s (sha256 env0 ''r1'') 200 = Some ?u"
    by (simp add: findOne_reset_def reset_matches_def unselect_password_def env0_def alice_def)
  have n: "name_ok ?u" and m: "email_ok env0 ?u" and l: "6 \<le> length ''newpass''"
    by (simp_all add: name_ok_def email_ok_def required_ok_def env0_def alice_def)
  have o: "list_all (\<lambda>x. passwordResetToken x = Some (sha256 env0 ''r1'') \<longrightarrow>
             user_id x = user_id ?u) ?s"
    by simp
  have w: "write_back True
              (?u\<lparr>password := Some (bcrypt_hash env0 ''newpass'' ''salt''), passwordConfirm := None,
                 passwordChangedAt := Some (250 - 1000), passwordResetToken := None,
                 passwordResetExpires := None\<rparr>) ?s =
           [alice\<lparr>password := Some ''$newpass'', passwordChangedAt := Some (-750)\<rparr>]"
    by (simp add: write_back_def env0_def alice_def)
  have r: "Response 200 ''success'' (Some (createToken env0 (user_id ?u)))
              (Some (?u\<lparr>password := None, passwordConfirm := None,
                 passwordChangedAt := Some (250 - 1000), passwordResetToken := None,
                 passwordResetExpires := None\<rparr>)) None =
           Response 200 ''success'' (Some ''jwt'')
              (Some (alice\<lparr>password := None, passwordChangedAt := Some (-750)\<rparr>)) None"
    by (simp add: env0_def alice_def)
  note t = reset_token_one_time_use [OF f n m l o, where ?save1.0 = 250 and salt = "''salt''"]
  from t have 1: "resetPassword env0 ?s ''r1'' (Some ''newpass'') (Some ''newpass'') 200 250
       ''salt'' =
     ([alice\<lparr>password := Some ''$newpass'', passwordChangedAt := Some (-750)\<rparr>],
      Inr (Response 200 ''success'' (Some ''jwt'')
        (Some (alice\<lparr>password := None, passwordChangedAt := Some (-750)\<rparr>)) None))"
    by (simp only: w r)
  have s1: "fst (resetPassword env0 ?s ''r1'' (Some ''newpass'') (Some ''newpass'') 200 250
       ''salt'') =
     [alice\<lparr>password := Some ''$newpass'', passwordChangedAt := Some (-750)\<rparr>]"
    by (simp only: 1 fst_conv)
  from t have "resetPassword env0
       (fst (resetPassword env0 ?s ''r1'' (Some ''newpass'') (Some ''newpass'') 200 250 ''salt''))
       ''r1'' (Some ''another'') (Some ''another'') 300 350 ''salt'' =
     (fst (resetPassword env0 ?s ''r1'' (Some ''newpass'') (Some ''newpass'') 200 250 ''salt''),
      Inl InvalidOrExpiredToken)"
    by blast
  then have 2: "resetPassword env0
       [alice\<lparr>password := Some ''$newpass'', passwordChangedAt := Some (-750)\<rparr>]
       ''r1'' (Some ''another'') (Some ''another'') 300 350 ''salt'' =
     ([alice\<lparr>password := Some ''$newpass'', passwordChangedAt := Some (-750)\<rparr>],
      Inl InvalidOrExpiredToken)"
    by (simp only: s1)
  from 1 2 show ?thesis by blast
qed

text \<open>
  Claim C8. A user document has one reset hash and one expiry. Issuing a second token
  overwrites both: the document is the one the second issue alone would give, a presented
  hash matches it exactly when it is the hash of the second raw token and the second expiry
  has not passed, and the first raw token no longer matches (its hash being another one).
  Two \<^verbatim>\<open>forgetPassword\<close> requests for one email leave the collection that the second
  alone leaves.
\<close>

theorem second_reset_token_overwrites:
  "fst (createPasswordResetToken e raw2 t2 (fst (createPasswordResetToken e raw1 t1 u))) =
     fst (createPasswordResetToken e raw2 t2 u) \<and>
   (reset_matches h now
      (fst (createPasswordResetToken e raw2 t2 (fst (createPasswordResetToken e raw1 t1 u))))
      \<longleftrightarrow> h = sha256 e raw2 \<and> now < t2 + 600000) \<and>
   (sha256 e raw1 \<noteq> sha256 e raw2 \<longrightarrow>
      \<not> reset_matches (sha256 e raw1) now
          (fst (createPasswordResetToken e raw2 t2 (fst (createPasswordResetToken e raw1 t1 u))))) \<and>
   fst (forgetPassword e (fst (forgetPassword e s em raw1 t1 True)) em raw2 t2 True) =
     fst (forgetPassword e s em raw2 t2 True)"
  by (auto simp: forgetPassword_twice createPasswordResetToken_def reset_matches_def)

text \<open>On the small instance: \<^verbatim>\<open>r1\<close> issued at 100 ms, then \<^verbatim>\<open>r2\<close> at 150 ms.\<close>

theorem second_reset_token_overwrites_witness:
  "sha256 env0 ''r1'' \<noteq> sha256 env0 ''r2'' \<and>
   \<not> reset_matches (sha256 env0 ''r1'') 200
       (fst (createPasswordResetToken env0 ''r2'' 150
          (fst (createPasswordResetToken env0 ''r1'' 100 alice)))) \<and>
   reset_matches (sha256 env0 ''r2'') 200
       (fst (createPasswordResetToken env0 ''r2'' 150
          (fst (createPasswordResetToken env0 ''r1'' 100 alice))))"
proof -
  have h: "sha256 env0 ''r1'' \<noteq> sha256 env0 ''r2''"
    by (simp add: env0_def)
  have a: "(200::int) < 150 + 600000"
    by simp
  from second_reset_token_overwrites [where e = env0 and ?raw1.0 = "''r1''" and ?raw2.0 = "''r2''"
      and ?t1.0 = 100 and ?t2.0 = 150 and u = alice and now = 200 and h = "sha256 env0 ''r2''"]
    second_reset_token_overwrites [where e = env0 and ?raw1.0 = "''r1''" and ?raw2.0 = "''r2''"
      and ?t1.0 = 100 and ?t2.0 = 150 and u = alice and now = 200 and h = "sha256 env0 ''r1''"]
    h a
  show ?thesis by blast
qed

subsection \<open>The minimum length of a password\<close>

text \<open>
  Claim C10. A password of fewer than six characters is never stored: each of the three
  operations that store a password fails on it with a validation error that names the
  password, and leaves the collection as it was. \<^verbatim>\<open>signUp\<close> does so on every request;
  \<^verbatim>\<open>resetPassword\<close> whenever the token matches a user; \<^verbatim>\<open>updatePassword\<close> whenever the
  user exists and the current password is right. A request that stops at one of those
  earlier checks stores nothing either and fails with the error of that check.
\<close>

theorem short_password_refused:
  "length p < 6 \<Longrightarrow>
     (\<exists>paths. signUp e s nm em (Some p) pwc new_id salt now mailOk =
         (s, Inl (ValidationError paths)) \<and> ''password'' \<in> set paths) \<and>
     (\<exists>err. resetPassword e s tok (Some p) pwc now saveNow salt = (s, Inl err) \<and>
         (if findOne_reset s (sha256 e tok) now = None then err = InvalidOrExpiredToken
          else \<exists>paths. err = ValidationError paths \<and> ''password'' \<in> set paths)) \<and>
     (\<exists>err. updatePassword e s req_user cur (Some p) pwc now salt = (s, Inl err) \<and>
         (case findById_with_password s (user_id req_user) of
            None \<Rightarrow> err = TypeError
          | Some u \<Rightarrow>
              (case passwordMatching e cur (password u) of
                 Inl bad \<Rightarrow> err = bad
               | Inr correct \<Rightarrow>
                   if correct
                   then \<exists>paths. err = ValidationError paths \<and> ''password'' \<in> set paths
                   else err = AppError ''Your current password is incorrect'' 401)))"
proof (intro conjI)
  assume p: "length p < 6"
  show "\<exists>paths. signUp e s nm em (Some p) pwc new_id salt now mailOk =
         (s, Inl (ValidationError paths)) \<and> ''password'' \<in> set paths"
    using p by (rule signUp_short)
  show "\<exists>err. resetPassword e s tok (Some p) pwc now saveNow salt = (s, Inl err) \<and>
         (if findOne_reset s (sha256 e tok) now = None then err = InvalidOrExpiredToken
          else \<exists>paths. err = ValidationError paths \<and> ''password'' \<in> set paths)"
    using p by (rule resetPassword_short)
  show "\<exists>err. updatePassword e s req_user cur (Some p) pwc now salt = (s, Inl err) \<and>
         (case findById_with_password s (user_id req_user) of
            None \<Rightarrow> err = TypeError
          | Some u \<Rightarrow>
              (case passwordMatching e cur (password u) of
                 Inl bad \<Rightarrow> err = bad
               | Inr correct \<Rightarrow>
                   if correct
                   then \<exists>paths. err = ValidationError paths \<and> ''password'' \<in> set paths
                   else err = AppError ''Your current password is incorrect'' 401))"
    using p by (rule updatePassword_short)
qed

text \<open>
  The password \<^verbatim>\<open>abc\<close> on the small instance, in the three operations, each at a request
  that reaches the save.
\<close>

theorem short_password_refused_witness:
  "length ''abc'' < 6 \<and>
   (\<exists>paths. signUp env0 [alice] (Some ''Bob'') (Some ''b@b.c'') (Some ''abc'') (Some ''abc'')
        2 ''salt'' 5 True = ([alice], Inl (ValidationError paths)) \<and> ''password'' \<in> set paths) \<and>
   (\<exists>paths. resetPassword env0
        [alice\<lparr>passwordResetToken := Some ''#r1'', passwordResetExpires := Some 600100\<rparr>]
        ''r1'' (Some ''abc'') (Some ''abc'') 200 250 ''salt'' =
      ([alice\<lparr>passwordResetToken := Some ''#r1'', passwordResetExpires := Some 600100\<rparr>],
       Inl (ValidationError paths)) \<and> ''password'' \<in> set paths) \<and>
   (\<exists>paths. updatePassword env0 [alice] alice (Some ''secret'') (Some ''abc'') (Some ''abc'')
        200 ''salt'' = ([alice], Inl (ValidationError paths)) \<and> ''password'' \<in> set paths)"
proof -
  let ?s = "[alice\<lparr>passwordResetToken := Some ''#r1'', passwordResetExpires := Some 600100\<rparr>]"
  have h: "length ''abc'' < 6" by simp
  have f: "findOne_reset ?s (sha256 env0 ''r1'') 200 \<noteq> None"
    by (simp add: findOne_reset_def reset_matches_def env0_def alice_def)
  have g1: "findById_with_password [alice] (user_id alice) = Some alice"
    by (simp add: findById_with_password_def)
  have g2: "passwordMatching env0 (Some ''secret'') (password alice) = Inr True"
    by (simp add: passwordMatching_def env0_def alice_def)
  note t = short_password_refused [OF h, where e = env0 and pwc = "Some ''abc''"
             and now = 200 and saveNow = 250 and salt = "''salt''" and cur = "Some ''secret''"
             and req_user = alice]
  have 1: "\<exists>paths. signUp env0 [alice] (Some ''Bob'') (Some ''b@b.c'') (Some ''abc'') (Some ''abc'')
        2 ''salt'' 5 True = ([alice], Inl (ValidationError paths)) \<and> ''password'' \<in> set paths"
    using short_password_refused [OF h] by blast
  from t [where s = ?s and tok = "''r1''", THEN conjunct2, THEN conjunct1] obtain err where
    e2: "resetPassword env0 ?s ''r1'' (Some ''abc'') (Some ''abc'') 200 250 ''salt'' =
           (?s, Inl err)"
    and c2: "if findOne_reset ?s (sha256 env0 ''r1'') 200 = None then err = InvalidOrExpiredToken
          else \<exists>paths. err = ValidationError paths \<and> ''password'' \<in> set paths"
    by (elim exE conjE)
  from c2 f have "\<exists>paths. err = ValidationError paths \<and> ''password'' \<in> set paths"
    by (simp only: if_False)
  with e2 have 2: "\<exists>paths. resetPassword env0 ?s ''r1'' (Some ''abc'') (Some ''abc'') 200 250
        ''salt'' = (?s, Inl (ValidationError paths)) \<and> ''password'' \<in> set paths"
    by blast
  from t [where s = "[alice]", THEN conjunct2, THEN conjunct2] obtain err3 where
    e3: "updatePassword env0 [alice] alice (Some ''secret'') (Some ''abc'') (Some ''abc'')
        200 ''salt'' = ([alice], Inl err3)"
    and c3: "case findById_with_password [alice] (user_id alice) of
            None \<Rightarrow> err3 = TypeError
          | Some u \<Rightarrow>
              (case passwordMatching env0 (Some ''secret'') (password u) of
                 Inl bad \<Rightarrow> err3 = bad
               | Inr correct \<Rightarrow>
                   if correct
                   then \<exists>paths. err3 = ValidationError paths \<and> ''password'' \<in> set paths
                   else err3 = AppError ''Your current password is incorrect'' 401)"
    by (elim exE conjE)
  from c3 have "\<exists>paths. err3 = ValidationError paths \<and> ''password'' \<in> set paths"
    by (simp only: g1 g2 option.case sum.case if_True)
  with e3 have 3: "\<exists>paths. updatePassword env0 [alice] alice (Some ''secret'') (Some ''abc'')
        (Some ''abc'') 200 ''salt'' = ([alice], Inl (ValidationError paths)) \<and>
        ''password'' \<in> set paths"
    by blast
  from h 1 2 3 show ?thesis by blast
qed

end
